theory Spec2Isabelle
  imports Complex_Main "HOL-Library.Word"
begin

section \<open>Numbers\<close>

text \<open>
  The C++ type \<open>float\<close> is modelled as \<^typ>\<open>real\<close>: arithmetic is exact, and rounding,
  infinities and NaN are not modelled. Comparisons and the integer-valued functions
  \<open>ceilf\<close>, \<open>floorf\<close> and \<open>roundf\<close> are exact on floats as well; sums, products and
  quotients are the idealised ones. The C++ \<open>int\<close> holding a rounded float is
  \<^typ>\<open>int\<close> (a float outside the range of \<open>int\<close> is not modelled).
\<close>

definition ceilf :: "real \<Rightarrow> int" where
  "ceilf x = \<lceil>x\<rceil>"

definition floorf :: "real \<Rightarrow> int" where
  "floorf x = \<lfloor>x\<rfloor>"

text \<open>\<open>truncf\<close> rounds toward zero; C's \<open>fmodf x y\<close> is \<open>x - y * truncf (x / y)\<close>, with the
  sign of \<open>x\<close>. It is called with \<open>y = 1\<close> and \<open>y = 10\<close> only.\<close>

definition truncf :: "real \<Rightarrow> int" where
  "truncf x = (if 0 \<le> x then \<lfloor>x\<rfloor> else \<lceil>x\<rceil>)"

definition fmodf :: "real \<Rightarrow> real \<Rightarrow> real" where
  "fmodf x y = x - y * of_int (truncf (x / y))"

text \<open>C's \<open>roundf\<close> rounds halfway cases away from zero (HOL's \<open>round\<close> rounds them up).\<close>

definition roundf :: "real \<Rightarrow> int" where
  "roundf x = (if 0 \<le> x then \<lfloor>x + 1 / 2\<rfloor> else \<lceil>x - 1 / 2\<rceil>)"


section \<open>The matrix surface\<close>

text \<open>
  \<open>LED::Colour\<close> (tef/led/Colour.h) is not among the sources. The code constructs it
  from a colour code and reads its float member \<open>alpha\<close>; the channels are taken from the
  specification ("RGB channels + alpha").
\<close>

record Colour =
  red :: real
  green :: real
  blue :: real
  alpha :: real

text \<open>
  Modelled from the spec: \<open>Colour::bMod\<close> is declared in tef/led/Colour.h, which is
  missing; the specification calls it "a derived brightness-modulation operation that
  returns a copy scaled by a fractional coverage value". No theorem below unfolds it but
  the closed examples, which only need that a colour scaled by 0.7 differs from the
  colour itself.
\<close>

definition bMod :: "Colour \<Rightarrow> real \<Rightarrow> Colour" where
  "bMod c factor = c\<lparr>red := red c * factor, green := green c * factor, blue := blue c * factor\<rparr>"

text \<open>
  \<open>LED::GenericMatrix\<close> is external as well. The model keeps its \<open>width\<close> and the
  sequence of drawing calls made on it, in program order: \<open>Set_colour x y c\<close> is
  \<open>matrix.set_colour(x, y, c)\<close>, \<open>Draw_string s x y w h c\<close> is
  \<open>matrix.draw_string(s, console_font, x, y, w, h, c)\<close>.
\<close>

datatype matrix_call =
  Set_colour int int Colour
  | Draw_string string real real int int Colour

record GenericMatrix =
  width :: int
  calls :: "matrix_call list"

definition call :: "matrix_call list \<Rightarrow> GenericMatrix \<Rightarrow> GenericMatrix" where
  "call cs m = m\<lparr>calls := calls m @ cs\<rparr>"


section \<open>Eyes\<close>

text \<open>
  An \<open>eye_shape\<close> is the array of 22 floats of Eyes.h (11 columns, top and bottom
  boundary each); Eyes.h is missing, so the shape templates \<open>relaxed_eye\<close>,
  \<open>angry_eye\<close>, ... are parameters: an emotion record carries its template, and
  \<open>relaxed_eye\<close> is an argument of \<open>tick\<close>.
\<close>

type_synonym eye_shape = "real list"

record eye_shape_def =
  shape :: eye_shape
  expressiveness :: real

record Eyes =
  matrix :: GenericMatrix
  offset :: int
  outer_color :: Colour
  inner_color :: Colour
  blush_colour :: Colour
  iris_x :: real
  emotions :: "eye_shape_def list"

subsection \<open>Attribute lookup\<close>

text \<open>
  \<open>get_flt\<close> and \<open>get_color\<close> return a pointer to a member or \<open>nullptr\<close>; the model
  returns which member the pointer addresses, or \<open>None\<close>. \<open>animation_value_id_t\<close> is
  \<open>uint16_t\<close>, and \<open>val - 0x100\<close> is computed in \<open>int\<close> after integer promotion. The
  parameter of \<open>get_color\<close> is a \<open>uint8_t\<close>.
\<close>

datatype flt_member = Expressiveness nat | Iris_x

datatype colour_member = Outer_color | Inner_color | Blush_colour

definition get_flt :: "16 word \<Rightarrow> Eyes \<Rightarrow> flt_member option" where
  "get_flt val e =
     (if uint val - 0x100 \<ge> 0 \<and> uint val - 0x100 < int (length (emotions e))
      then Some (Expressiveness (nat (uint val - 0x100)))
      else if val = 0x000 then Some Iris_x
      else None)"

definition get_color :: "8 word \<Rightarrow> colour_member option" where
  "get_color val =
     (if val = 0 then Some Outer_color
      else if val = 1 then Some Inner_color
      else if val = 2 then Some Blush_colour
      else None)"

subsection \<open>Blending\<close>

definition add_shapes :: "eye_shape \<Rightarrow> eye_shape \<Rightarrow> real \<Rightarrow> eye_shape" where
  "add_shapes source to_add factor =
     (if factor < 0.1 then source
      else map (\<lambda>i. source ! i + to_add ! i * factor) [0..<length source])"

text \<open>The indices \<open>i = 0, 2, 4, ...\<close> below \<open>size()\<close> of the loops that step by two.\<close>

definition columns :: "eye_shape \<Rightarrow> nat list" where
  "columns total_eye = map (\<lambda>k. 2 * k) [0..<(length total_eye + 1) div 2]"

subsection \<open>Rasterization\<close>

text \<open>
  The calls of one iteration of the loop of \<open>draw_total_eye\<close>, at index \<open>i\<close>: the
  solid rows \<open>y = ceilf top, ..., floorf bottom - 1\<close> at the matrix row \<open>y + 1\<close>, then
  the two boundary rows. The row arguments \<open>floorf(...) + 1\<close> are floats with integer
  values, here integers.
\<close>

definition column_calls :: "Colour \<Rightarrow> eye_shape \<Rightarrow> nat \<Rightarrow> matrix_call list" where
  "column_calls o_c total_eye i =
     (if total_eye ! i \<ge> total_eye ! (i + 1) then []
      else map (\<lambda>y. Set_colour (int (i div 2) + 18) (y + 1) o_c)
             [ceilf (total_eye ! i) .. floorf (total_eye ! (i + 1)) - 1]
           @ [Set_colour (int (i div 2) + 18) (floorf (total_eye ! i) + 1)
                (bMod o_c (1 - fmodf (total_eye ! i) 1)),
              Set_colour (int (i div 2) + 18) (floorf (total_eye ! (i + 1)) + 1)
                (bMod o_c (fmodf (total_eye ! (i + 1)) 1))])"

text \<open>The calls of the whole loop, column after column.\<close>

definition eye_calls :: "Colour \<Rightarrow> eye_shape \<Rightarrow> matrix_call list" where
  "eye_calls o_c total_eye = concat (map (column_calls o_c total_eye) (columns total_eye))"

definition draw_total_eye :: "eye_shape \<Rightarrow> Eyes \<Rightarrow> Eyes" where
  "draw_total_eye total_eye e =
     e\<lparr>matrix := call (eye_calls (outer_color e) total_eye) (matrix e)\<rparr>"

text \<open>The column and the row a call paints (none for a string).\<close>

fun pixel_x :: "matrix_call \<Rightarrow> int option" where
  "pixel_x (Set_colour x y c) = Some x"
| "pixel_x (Draw_string s x y w h c) = None"

fun pixel_y :: "matrix_call \<Rightarrow> int option" where
  "pixel_y (Set_colour x y c) = Some y"
| "pixel_y (Draw_string s x y w h c) = None"

subsection \<open>Blink\<close>

text \<open>The local \<open>eye_close_factor\<close> of \<open>calculate_blink\<close>, as a function of the clock.\<close>

definition close_factor :: "real \<Rightarrow> real" where
  "close_factor synch_time = 1.3 - \<bar>fmodf synch_time 10 - 5\<bar> * 15"

text \<open>The two assignments of the loop body, in their order: the second reads the
  boundary the first has just written.\<close>

definition blink_column :: "real \<Rightarrow> nat \<Rightarrow> eye_shape \<Rightarrow> eye_shape" where
  "blink_column eye_close_factor i total_eye =
     (let top_fact_top = 1 - 0.7 * eye_close_factor;
          top_fact_bottom = 0.7 * eye_close_factor;
          bottom_fact_top = 0.3 * eye_close_factor;
          bottom_fact_bottom = 1 - 0.7 * eye_close_factor;
          total_eye1 = total_eye[i := total_eye ! i * top_fact_top
                                      + total_eye ! (i + 1) * top_fact_bottom]
      in total_eye1[i + 1 := total_eye1 ! i * bottom_fact_top
                             + total_eye1 ! (i + 1) * bottom_fact_bottom])"

definition calculate_blink :: "real \<Rightarrow> eye_shape \<Rightarrow> eye_shape" where
  "calculate_blink synch_time total_eye =
     (if close_factor synch_time > 0
      then fold (blink_column (close_factor synch_time)) (columns total_eye) total_eye
      else total_eye)"

subsection \<open>Blush\<close>

text \<open>The calls of the two nested loops of \<open>draw_blush\<close>, for the colour \<open>c\<close>.\<close>

definition blush_calls :: "Colour \<Rightarrow> matrix_call list" where
  "blush_calls c =
     concat (map (\<lambda>y. map (\<lambda>x. Set_colour (3 * x - y + 17) (y + 9) c) [0 .. 4]) [0 .. 2])"

definition draw_blush :: "Eyes \<Rightarrow> Eyes" where
  "draw_blush e =
     (if alpha (blush_colour e) < 0.1 then e
      else e\<lparr>matrix := call (blush_calls (blush_colour e)) (matrix e)\<rparr>)"

subsection \<open>The iris clip\<close>

text \<open>
  \<open>operator[]\<close> of the shape is unchecked in C++. In the iris clip the index comes
  from data, so the model checks it: \<open>elem_at\<close> is \<open>None\<close> out of range, and the step is
  \<open>None\<close> when it would index out of range. \<open>total_eye.size()/2-1\<close> is computed in
  \<open>size_t\<close> (32 bits on the target), which wraps for a shape of fewer than two entries.
\<close>

definition elem_at :: "eye_shape \<Rightarrow> int \<Rightarrow> real option" where
  "elem_at xs i = (if 0 \<le> i \<and> i < int (length xs) then Some (xs ! nat i) else None)"

definition iris_clip :: "real \<Rightarrow> eye_shape \<Rightarrow> eye_shape option" where
  "iris_clip iris total_eye =
     (let rounded_iris = roundf iris in
      if rounded_iris \<ge> 0 \<and> rounded_iris \<le> (int (length total_eye div 2) - 1) mod 2 ^ 32
      then (case elem_at total_eye (rounded_iris * 2) of
              None \<Rightarrow> None
            | Some top_b \<Rightarrow>
               (case elem_at total_eye (rounded_iris * 2 + 1) of
                  None \<Rightarrow> None
                | Some bottom_b \<Rightarrow>
                    Some (total_eye[nat (rounded_iris * 2) := max top_b (bottom_b - 0.1)])))
      else Some total_eye)"

subsection \<open>The frame\<close>

definition initial_eye :: eye_shape where
  "initial_eye = [0.01, -0.01, 0.1, -0.1, 0.1, -0.1, 0.1, -0.1, 0.1, -0.1, 0.1, -0.1,
                  0.1, -0.1, 0.1, -0.1, 0.1, -0.1, 0.1, -0.1, 0.1, -0.1]"

definition expression_sum :: "Eyes \<Rightarrow> real" where
  "expression_sum e = fold (\<lambda>shape s. s + max (expressiveness shape) 0) (emotions e) 0"

text \<open>
  The factors \<open>tick\<close> passes to \<open>add_shapes\<close>, in the order of the calls: the one of the
  relaxed template, then one for each emotion. \<open>add_shapes\<close> returns at once for a
  factor below 0.1, so the factor it applies is \<open>applied f\<close> (lemma
  \<open>add_shapes_applied\<close> below).
\<close>

definition blend_factors :: "Eyes \<Rightarrow> real list" where
  "blend_factors e =
     max 0 (1 - expression_sum e)
     # map (\<lambda>shape. expressiveness shape / max (expression_sum e) 1) (emotions e)"

definition applied :: "real \<Rightarrow> real" where
  "applied factor = (if factor < 0.1 then 0 else factor)"

text \<open>Lines 112 to 124 of \<open>tick\<close>: the shape before the blink.\<close>

definition blend :: "eye_shape \<Rightarrow> Eyes \<Rightarrow> eye_shape" where
  "blend relaxed_eye e =
     fold (\<lambda>shape total_eye.
             add_shapes total_eye (eye_shape_def.shape shape)
               (expressiveness shape / max (expression_sum e) 1))
       (emotions e)
       (add_shapes initial_eye relaxed_eye (max 0 (1 - expression_sum e)))"

text \<open>
  \<open>tick\<close> reads the clock of the server (\<open>server.get_synch_time()\<close>), here the argument
  \<open>synch_time\<close>, and does not use \<open>delta_t\<close>. The result is \<open>None\<close> when the iris clip
  would index out of range.
\<close>

definition tick :: "eye_shape \<Rightarrow> real \<Rightarrow> real \<Rightarrow> Eyes \<Rightarrow> Eyes option" where
  "tick relaxed_eye synch_time delta_t e =
     (case iris_clip (iris_x e) (calculate_blink synch_time (blend relaxed_eye e)) of
        None \<Rightarrow> None
      | Some total_eye \<Rightarrow> Some (draw_blush (draw_total_eye total_eye e)))"


section \<open>MatrixString\<close>

record MatrixString =
  str_matrix :: GenericMatrix
  current_str :: string
  pos_x :: real
  pos_y :: real
  alignment :: real
  scroll_speed :: real
  print_colour :: Colour

text \<open>The argument of \<open>set_string\<close> is a \<open>const char *\<close>: \<open>None\<close> is \<open>nullptr\<close>.\<close>

definition set_string :: "string option \<Rightarrow> MatrixString \<Rightarrow> MatrixString" where
  "set_string str m =
     (case str of
        None \<Rightarrow> m\<lparr>current_str := ''''\<rparr>
      | Some s \<Rightarrow> m\<lparr>current_str := s\<rparr>)"

text \<open>
  \<open>MatrixString::tick\<close> is \<open>string_tick\<close> (the eyes have taken the name \<open>tick\<close>):
  \<open>scroll\<close> is its \<open>if\<close> statement, the scroll update of \<open>pos_x\<close>, and the call of
  \<open>draw_string\<close> follows.
\<close>

definition scroll :: "real \<Rightarrow> MatrixString \<Rightarrow> MatrixString" where
  "scroll delta_t m =
     (let font_width = 6;
          str_width = real (length (current_str m)) * font_width
      in if \<bar>scroll_speed m\<bar> > 0.1 \<and> current_str m \<noteq> []
         then (let m1 = m\<lparr>pos_x := pos_x m - scroll_speed m * delta_t\<rparr>
               in if pos_x m1 + (1 - alignment m1) * str_width < real_of_int (width (str_matrix m1))
                  then m1\<lparr>pos_x := pos_x m1 + (str_width - font_width * 6)\<rparr>
                  else m1)
         else m)"

definition string_tick :: "real \<Rightarrow> MatrixString \<Rightarrow> MatrixString" where
  "string_tick delta_t m =
     (let m1 = scroll delta_t m;
          str_width = real (length (current_str m1)) * 6
      in m1\<lparr>str_matrix :=
              call [Draw_string (current_str m1) (pos_x m1 - alignment m1 * str_width) (pos_y m1)
                      6 8 (print_colour m1)]
                (str_matrix m1)\<rparr>)"


section \<open>Sample inputs\<close>

text \<open>
  Concrete values for the closed examples below. \<open>sample_eyes\<close> has the members the
  constructor sets (offset 30, iris at 3, five emotions, outer colour 0x9900AA), with
  sample values for the constants the missing headers define (the templates, the blush
  colour); its first emotion has the weight 1, the others 0. The first column of
  \<open>sample_shape\<close> runs from 2.3 to 5.7, its column 3 from 1 to 4, and its last column is
  empty.
\<close>

definition sample_colour :: Colour where
  "sample_colour = \<lparr>red = 153, green = 0, blue = 170, alpha = 1\<rparr>"

definition sample_blush :: Colour where
  "sample_blush = \<lparr>red = 255, green = 105, blue = 180, alpha = 1\<rparr>"

definition sample_matrix :: GenericMatrix where
  "sample_matrix = \<lparr>width = 64, calls = []\<rparr>"

definition sample_shape :: eye_shape where
  "sample_shape = [2.3, 5.7, 2, 6, 1, 7, 1, 4, 1, 7, 1, 7, 1, 7, 2, 6, 2, 6, 3, 5, 4, 4]"

definition sample_emotions :: "eye_shape_def list" where
  "sample_emotions =
     [\<lparr>shape = sample_shape, expressiveness = 1\<rparr>,
      \<lparr>shape = sample_shape, expressiveness = 0\<rparr>,
      \<lparr>shape = sample_shape, expressiveness = 0\<rparr>,
      \<lparr>shape = sample_shape, expressiveness = 0\<rparr>,
      \<lparr>shape = sample_shape, expressiveness = 0\<rparr>]"

definition sample_eyes :: Eyes where
  "sample_eyes =
     \<lparr>matrix = sample_matrix, offset = 30, outer_color = sample_colour,
      inner_color = \<lparr>red = 0, green = 0, blue = 0, alpha = 1\<rparr>,
      blush_colour = sample_blush, iris_x = 3, emotions = sample_emotions\<rparr>"


text \<open>The same eyes with five faint emotions, and with the iris off the shape.\<close>

definition faint_emotions :: "eye_shape_def list" where
  "faint_emotions =
     [\<lparr>shape = sample_shape, expressiveness = 0.05\<rparr>,
      \<lparr>shape = sample_shape, expressiveness = 0.05\<rparr>,
      \<lparr>shape = sample_shape, expressiveness = 0.05\<rparr>,
      \<lparr>shape = sample_shape, expressiveness = 0.05\<rparr>,
      \<lparr>shape = sample_shape, expressiveness = 0.05\<rparr>]"

definition faint_eyes :: Eyes where
  "faint_eyes = sample_eyes\<lparr>emotions := faint_emotions\<rparr>"

definition stray_eyes :: Eyes where
  "stray_eyes = sample_eyes\<lparr>iris_x := 11\<rparr>"

text \<open>The sample eyes with another offset and inner colour, and with another blush
  colour.\<close>

definition other_eyes :: Eyes where
  "other_eyes = sample_eyes\<lparr>offset := 0, inner_color := sample_blush\<rparr>"

definition plain_eyes :: Eyes where
  "plain_eyes = sample_eyes\<lparr>blush_colour := sample_colour\<rparr>"

definition sample_string :: MatrixString where
  "sample_string =
     \<lparr>str_matrix = sample_matrix, current_str = ''hello'', pos_x = 64, pos_y = 8,
      alignment = 0, scroll_speed = 0.1, print_colour = sample_colour\<rparr>"


section \<open>Attribute lookup of the eyes\<close>

lemma get_flt_None_iff:
  assumes "length (emotions e) = 5"
  shows "get_flt val e = None \<longleftrightarrow> val \<noteq> 0 \<and> (val < 0x100 \<or> 0x104 < val)"
  using assms
  by (auto simp: get_flt_def word_less_def word_le_def word_uint_eq_iff)

lemma get_color_None_iff:
  "get_color val = None \<longleftrightarrow> val \<noteq> 0 \<and> val \<noteq> 1 \<and> val \<noteq> 2"
  by (simp add: get_color_def)

text \<open>
  Claim C4, as the code has it. With the five emotions of the constructor, \<open>get_flt\<close>
  finds nothing at the id 0x200, nor at any 16-bit id other than 0x000 and 0x100 to
  0x104. \<open>get_color\<close> takes an 8-bit id and finds nothing at any 8-bit id other than
  0, 1 and 2, for example at 0x20.
\<close>

theorem unknown_attribute_not_found:
  assumes "length (emotions e) = 5"
  shows "get_flt 0x200 e = None
       \<and> (get_flt val e = None \<longleftrightarrow> val \<noteq> 0 \<and> (val < 0x100 \<or> 0x104 < val))
       \<and> (get_color cval = None \<longleftrightarrow> cval \<noteq> 0 \<and> cval \<noteq> 1 \<and> cval \<noteq> 2)
       \<and> get_color 0x20 = None"
proof -
  have "get_flt 0x200 e = None"
    using assms by (simp add: get_flt_def)
  moreover have "get_color 0x20 = None"
    by (simp add: get_color_def)
  ultimately show ?thesis
    using get_flt_None_iff [OF assms] get_color_None_iff by blast
qed

theorem unknown_attribute_not_found_witness:
  "length (emotions sample_eyes) = 5
   \<and> get_flt 0x200 sample_eyes = None
   \<and> get_flt 0x105 sample_eyes = None
   \<and> get_color 3 = None
   \<and> get_color 0x20 = None"
proof -
  have len: "length (emotions sample_eyes) = 5"
    by (simp add: sample_eyes_def sample_emotions_def)
  show ?thesis
    using len unknown_attribute_not_found [OF len, of "0x105" 3] by simp
qed

text \<open>
  The id 0x200 of the claim does not fit the \<open>uint8_t\<close> parameter of \<open>get_color\<close>:
  the call \<open>get_color(0x200)\<close> converts it to 0, and the result is the outer colour,
  not \<open>nullptr\<close>.
\<close>

theorem get_color_0x200_found:
  "get_color (ucast (0x200 :: 16 word)) = Some Outer_color"
  by (simp add: get_color_def)


section \<open>Lengths\<close>

lemma add_shapes_length: "length (add_shapes s t f) = length s"
  by (simp add: add_shapes_def)

lemma fold_add_shapes_length:
  "length (fold (\<lambda>sh te. add_shapes te (g sh) (h sh)) es te0) = length te0"
  by (induction es arbitrary: te0) (simp_all add: add_shapes_length)

lemma blend_length: "length (blend R e) = 22"
  by (simp add: blend_def fold_add_shapes_length add_shapes_length initial_eye_def)

lemma blink_column_length: "length (blink_column cf i te) = length te"
  by (simp add: blink_column_def Let_def)

lemma fold_blink_length: "length (fold (blink_column cf) ks te) = length te"
  by (induction ks arbitrary: te) (simp_all add: blink_column_length)

lemma calculate_blink_length: "length (calculate_blink t te) = length te"
  by (simp add: calculate_blink_def fold_blink_length)

lemma blinked_blend_length: "length (calculate_blink t (blend R e)) = 22"
  by (simp add: calculate_blink_length blend_length)

lemma columns_22: "length te = 22 \<Longrightarrow> columns te = map (\<lambda>k. 2 * k) [0..<11]"
  by (simp add: columns_def)

lemma sample_shape_length: "length sample_shape = 22"
  by (simp add: sample_shape_def)


section \<open>The blink\<close>

text \<open>
  After the first \<open>n\<close> iterations of the loop, the columns below \<open>n\<close> hold the blinked
  boundaries and the entries from \<open>2 * n\<close> on are untouched.
\<close>

lemma blink_prefix:
  "2 * n \<le> length te \<Longrightarrow>
   (\<forall>j. 2 * n \<le> j \<longrightarrow> fold (blink_column cf) (map (\<lambda>k. 2 * k) [0..<n]) te ! j = te ! j)
   \<and> (\<forall>c<n. fold (blink_column cf) (map (\<lambda>k. 2 * k) [0..<n]) te ! (2 * c)
              = te ! (2 * c) * (1 - 0.7 * cf) + te ! (2 * c + 1) * (0.7 * cf)
            \<and> fold (blink_column cf) (map (\<lambda>k. 2 * k) [0..<n]) te ! (2 * c + 1)
              = (te ! (2 * c) * (1 - 0.7 * cf) + te ! (2 * c + 1) * (0.7 * cf)) * (0.3 * cf)
                + te ! (2 * c + 1) * (1 - 0.7 * cf))"
proof (induction n)
  case 0
  then show ?case by simp
next
  case (Suc n)
  let ?prev = "fold (blink_column cf) (map (\<lambda>k. 2 * k) [0..<n]) te"
  have step: "fold (blink_column cf) (map (\<lambda>k. 2 * k) [0..<Suc n]) te
              = blink_column cf (2 * n) ?prev"
    by simp
  have len: "length ?prev = length te"
    by (rule fold_blink_length)
  have ih: "\<forall>j. 2 * n \<le> j \<longrightarrow> ?prev ! j = te ! j"
    "\<forall>c<n. ?prev ! (2 * c) = te ! (2 * c) * (1 - 0.7 * cf) + te ! (2 * c + 1) * (0.7 * cf)
            \<and> ?prev ! (2 * c + 1)
              = (te ! (2 * c) * (1 - 0.7 * cf) + te ! (2 * c + 1) * (0.7 * cf)) * (0.3 * cf)
                + te ! (2 * c + 1) * (1 - 0.7 * cf)"
    using Suc by simp_all
  have bound: "2 * n + 1 < length ?prev"
    using Suc.prems len by simp
  show ?case
    unfolding step
    using ih bound
    by (auto simp: blink_column_def Let_def nth_list_update less_Suc_eq)
qed

lemma fmodf_nonneg: "0 \<le> t \<Longrightarrow> fmodf t 10 = t - 10 * of_int \<lfloor>t / 10\<rfloor>"
  by (simp add: fmodf_def truncf_def)

lemma close_factor_midpoint: "close_factor (5 + 10 * real n) = 1.3"
  by (simp add: close_factor_def fmodf_def truncf_def add_divide_distrib)

lemma close_factor_period_start: "close_factor (10 * real n) = 1.3 - 5 * 15"
  by (simp add: close_factor_def fmodf_def truncf_def)

text \<open>
  Claim C3. For a shape of 22 entries and each of its 11 columns \<open>c\<close>: when the close
  factor is positive, the new top is \<open>old_top * (1 - 0.7 * f) + old_bottom * (0.7 * f)\<close>
  and the new bottom is \<open>new_top * (0.3 * f) + old_bottom * (1 - 0.7 * f)\<close>, computed
  from the top already updated; when the close factor is not positive the shape is
  unchanged.
\<close>

theorem blink_uses_updated_top:
  assumes "length total_eye = 22" and "c < 11"
  shows "(0 < close_factor t \<longrightarrow>
            calculate_blink t total_eye ! (2 * c)
              = total_eye ! (2 * c) * (1 - 0.7 * close_factor t)
                + total_eye ! (2 * c + 1) * (0.7 * close_factor t)
          \<and> calculate_blink t total_eye ! (2 * c + 1)
              = calculate_blink t total_eye ! (2 * c) * (0.3 * close_factor t)
                + total_eye ! (2 * c + 1) * (1 - 0.7 * close_factor t))
       \<and> (close_factor t \<le> 0 \<longrightarrow> calculate_blink t total_eye = total_eye)"
proof -
  have "2 * 11 \<le> length total_eye"
    using assms(1) by simp
  from blink_prefix [OF this, of "close_factor t"] assms(2)
  have "fold (blink_column (close_factor t)) (columns total_eye) total_eye ! (2 * c)
          = total_eye ! (2 * c) * (1 - 0.7 * close_factor t)
            + total_eye ! (2 * c + 1) * (0.7 * close_factor t)
        \<and> fold (blink_column (close_factor t)) (columns total_eye) total_eye ! (2 * c + 1)
          = (total_eye ! (2 * c) * (1 - 0.7 * close_factor t)
             + total_eye ! (2 * c + 1) * (0.7 * close_factor t)) * (0.3 * close_factor t)
            + total_eye ! (2 * c + 1) * (1 - 0.7 * close_factor t)"
    unfolding columns_22 [OF assms(1)] by blast
  then show ?thesis
    by (simp add: calculate_blink_def)
qed

theorem blink_uses_updated_top_witness:
  "length sample_shape = 22 \<and> (0::nat) < 11
   \<and> 0 < close_factor 5
   \<and> calculate_blink 5 sample_shape ! 0 = 5.394
   \<and> calculate_blink 5 sample_shape ! 1 = 5.394 * 0.39 + 5.7 * 0.09
   \<and> close_factor 0 \<le> 0
   \<and> calculate_blink 0 sample_shape = sample_shape"
proof -
  have five: "close_factor 5 = 1.3"
    using close_factor_midpoint [of 0] by simp
  have zero: "close_factor 0 = 1.3 - 5 * 15"
    using close_factor_period_start [of 0] by simp
  have cols: "sample_shape ! (2 * 0) = 2.3" "sample_shape ! (2 * 0 + 1) = 5.7"
    by (simp_all add: sample_shape_def)
  show ?thesis
    using blink_uses_updated_top [OF sample_shape_length, of 0 5]
      blink_uses_updated_top [OF sample_shape_length, of 0 0]
    unfolding five zero cols
    by (simp add: sample_shape_length)
qed

text \<open>
  Claim C6. The close factor is \<open>1.3 - |fmodf clock 10 - 5| * 15\<close>, where for a clock
  that is not negative \<open>fmodf clock 10\<close> is the clock modulo 10. It is 1.3 at the clocks
  5, 15, 25, ...; at the clocks 0, 10, 20, ... it is \<open>1.3 - 5 * 15\<close>, which is negative,
  and the blink leaves the shape as it is.
\<close>

theorem close_factor_wave:
  "close_factor t = 1.3 - \<bar>fmodf t 10 - 5\<bar> * 15
   \<and> (0 \<le> t \<longrightarrow> fmodf t 10 = t - 10 * of_int \<lfloor>t / 10\<rfloor>)
   \<and> close_factor 5 = 1.3
   \<and> close_factor (5 + 10 * real n) = 1.3
   \<and> close_factor 0 = 1.3 - 5 * 15
   \<and> close_factor 10 = 1.3 - 5 * 15
   \<and> close_factor (10 * real n) = 1.3 - 5 * 15
   \<and> close_factor (10 * real n) < 0
   \<and> calculate_blink 0 total_eye = total_eye
   \<and> calculate_blink 10 total_eye = total_eye
   \<and> calculate_blink (10 * real n) total_eye = total_eye"
proof -
  have start: "close_factor (10 * real k) = 1.3 - 5 * 15" for k
    by (rule close_factor_period_start)
  have "close_factor 5 = 1.3"
    using close_factor_midpoint [of 0] by simp
  moreover have "close_factor 0 = 1.3 - 5 * 15"
    using start [of 0] by simp
  moreover have "close_factor 10 = 1.3 - 5 * 15"
    using start [of 1] by simp
  moreover have "calculate_blink s total_eye = total_eye" if "close_factor s = 1.3 - 5 * 15" for s
    using that by (simp add: calculate_blink_def)
  ultimately show ?thesis
    using start [of n] close_factor_midpoint [of n] fmodf_nonneg [of t]
    by (simp add: close_factor_def)
qed

theorem close_factor_wave_witness:
  "(0::real) \<le> 25 \<and> fmodf 25 10 = 5 \<and> close_factor 25 = 1.3
   \<and> close_factor 20 < 0 \<and> calculate_blink 20 sample_shape = sample_shape"
  using close_factor_wave [of 25 2 sample_shape] by simp


section \<open>The iris clip\<close>

lemma iris_clip_valid:
  assumes "length total_eye = 22" "0 \<le> roundf iris" "roundf iris \<le> 10"
  shows "iris_clip iris total_eye
         = Some (total_eye[nat (roundf iris * 2) :=
                    max (total_eye ! nat (roundf iris * 2))
                        (total_eye ! nat (roundf iris * 2 + 1) - 0.1)])"
  using assms by (auto simp: iris_clip_def Let_def elem_at_def)

lemma iris_clip_invalid:
  assumes "length total_eye = 22" "roundf iris < 0 \<or> 10 < roundf iris"
  shows "iris_clip iris total_eye = Some total_eye"
  using assms by (auto simp: iris_clip_def Let_def)

text \<open>
  Claim C5. With \<open>col = roundf iris\<close> a valid column of a shape of 22 entries, the iris
  clip replaces the top boundary of that column by \<open>max top (bottom - 0.1)\<close> and changes
  nothing else. In particular, for the iris at 3 and column 3 with top 1 and bottom 4
  the new top is 3.9.
\<close>

theorem iris_clip_clamps_top:
  assumes "length total_eye = 22" and "0 \<le> roundf iris" and "roundf iris \<le> 10"
  shows "iris_clip iris total_eye
           = Some (total_eye[2 * nat (roundf iris) :=
                      max (total_eye ! (2 * nat (roundf iris)))
                          (total_eye ! (2 * nat (roundf iris) + 1) - 0.1)])
         \<and> (iris = 3 \<and> total_eye ! 6 = 1 \<and> total_eye ! 7 = 4
              \<longrightarrow> iris_clip iris total_eye = Some (total_eye[6 := 3.9]))"
proof -
  have idx: "nat (roundf iris * 2) = 2 * nat (roundf iris)"
    "nat (roundf iris * 2 + 1) = 2 * nat (roundf iris) + 1"
    using assms(2) by (simp_all add: nat_mult_distrib nat_add_distrib)
  have general: "iris_clip iris total_eye
           = Some (total_eye[2 * nat (roundf iris) :=
                      max (total_eye ! (2 * nat (roundf iris)))
                          (total_eye ! (2 * nat (roundf iris) + 1) - 0.1)])"
    using iris_clip_valid [OF assms] unfolding idx .
  have "roundf 3 = 3"
    by (simp add: roundf_def)
  then have "iris_clip iris total_eye = Some (total_eye[6 := 3.9])"
    if "iris = 3 \<and> total_eye ! 6 = 1 \<and> total_eye ! 7 = 4"
    using that general by simp
  then show ?thesis
    using general by blast
qed

theorem iris_clip_clamps_top_witness:
  "length sample_shape = 22 \<and> 0 \<le> roundf 3 \<and> roundf 3 \<le> 10
   \<and> sample_shape ! 6 = 1 \<and> sample_shape ! 7 = 4
   \<and> iris_clip 3 sample_shape = Some (sample_shape[6 := 3.9])"
proof -
  have r: "roundf 3 = 3"
    by (simp add: roundf_def)
  have cols: "sample_shape ! 6 = 1" "sample_shape ! 7 = 4"
    by (simp_all add: sample_shape_def)
  show ?thesis
    using iris_clip_clamps_top [OF sample_shape_length, of 3] r cols
    by (simp add: sample_shape_length)
qed

text \<open>
  Claim C8. When the rounded iris position is below 0 or above 10, the iris clip of
  \<open>tick\<close> indexes nothing (its result is not \<open>None\<close>) and returns the shape as it is,
  and \<open>tick\<close> goes on to draw that shape.
\<close>

theorem stray_iris_ignored:
  assumes "roundf (iris_x e) < 0 \<or> 10 < roundf (iris_x e)"
  shows "iris_clip (iris_x e) (calculate_blink t (blend R e)) = Some (calculate_blink t (blend R e))
         \<and> tick R t d e = Some (draw_blush (draw_total_eye (calculate_blink t (blend R e)) e))"
  using iris_clip_invalid [OF blinked_blend_length assms]
  by (simp add: tick_def)

theorem stray_iris_ignored_witness:
  "10 < roundf (iris_x stray_eyes)
   \<and> tick sample_shape 0 0 stray_eyes
       = Some (draw_blush (draw_total_eye (calculate_blink 0 (blend sample_shape stray_eyes)) stray_eyes))"
proof -
  have "roundf (iris_x stray_eyes) = 11"
    by (simp add: stray_eyes_def roundf_def)
  then show ?thesis
    using stray_iris_ignored [of stray_eyes 0 sample_shape 0] by simp
qed



section \<open>Rasterization\<close>

text \<open>Every call of the iteration at index \<open>i\<close> paints the matrix column \<open>i div 2 + 18\<close>,
  so the calls of \<open>draw_total_eye\<close> on one matrix column are those of one iteration.\<close>

lemma column_calls_x:
  "k \<in> set (column_calls o_c te i) \<Longrightarrow> pixel_x k = Some (int (i div 2) + 18)"
  by (auto simp: column_calls_def split: if_splits)

lemma filter_column_calls:
  "filter (\<lambda>k. pixel_x k = Some (int c + 18)) (column_calls o_c te (2 * n))
     = (if n = c then column_calls o_c te (2 * n) else [])"
proof (cases "n = c")
  case True
  then have "\<forall>k\<in>set (column_calls o_c te (2 * n)). pixel_x k = Some (int c + 18)"
    using column_calls_x [of _ o_c te "2 * n"] by simp
  then show ?thesis using True by simp
next
  case False
  then have "\<forall>k\<in>set (column_calls o_c te (2 * n)). pixel_x k \<noteq> Some (int c + 18)"
    using column_calls_x [of _ o_c te "2 * n"] by auto
  then show ?thesis using False by simp
qed

lemma filter_columns_prefix:
  "filter (\<lambda>k. pixel_x k = Some (int c + 18))
     (concat (map (column_calls o_c te) (map (\<lambda>k. 2 * k) [0..<n])))
   = (if c < n then column_calls o_c te (2 * c) else [])"
  by (induction n) (auto simp: filter_column_calls less_Suc_eq)

lemma eye_calls_of_column:
  assumes "length te = 22" and "c < 11"
  shows "filter (\<lambda>k. pixel_x k = Some (int c + 18)) (eye_calls o_c te) = column_calls o_c te (2 * c)"
  unfolding eye_calls_def columns_22 [OF assms(1)]
  using filter_columns_prefix [of c o_c te 11] assms(2) by simp

lemma draw_total_eye_calls:
  "calls (matrix (draw_total_eye te e)) = calls (matrix e) @ eye_calls (outer_color e) te"
  by (simp add: draw_total_eye_def call_def)

lemma column_calls_2_3_to_5_7:
  assumes "te ! i = 2.3" and "te ! (i + 1) = 5.7"
  shows "column_calls o_c te i =
    [Set_colour (int (i div 2) + 18) 4 o_c, Set_colour (int (i div 2) + 18) 5 o_c,
     Set_colour (int (i div 2) + 18) 3 (bMod o_c 0.7),
     Set_colour (int (i div 2) + 18) 6 (bMod o_c 0.7)]"
  unfolding column_calls_def assms
  by (simp add: ceilf_def floorf_def fmodf_def truncf_def upto.simps)

text \<open>
  Claim C7. For a shape of 22 entries and a column \<open>c\<close> of it whose top boundary is
  greater than or equal to its bottom boundary, none of the calls \<open>draw_total_eye\<close>
  makes paints the matrix column \<open>c + 18\<close> of that column: neither a solid row nor a
  boundary row.
\<close>

theorem closed_column_not_drawn:
  assumes "length total_eye = 22" and "c < 11"
    and "total_eye ! (2 * c) \<ge> total_eye ! (2 * c + 1)"
  shows "\<exists>new. calls (matrix (draw_total_eye total_eye e)) = calls (matrix e) @ new
           \<and> filter (\<lambda>k. pixel_x k = Some (int c + 18)) new = []"
proof -
  have "column_calls (outer_color e) total_eye (2 * c) = []"
    using assms(3) by (simp add: column_calls_def)
  then have "filter (\<lambda>k. pixel_x k = Some (int c + 18)) (eye_calls (outer_color e) total_eye) = []"
    using eye_calls_of_column [OF assms(1,2)] by simp
  then show ?thesis
    using draw_total_eye_calls by blast
qed

lemma sample_eyes_no_calls: "calls (matrix sample_eyes) = []"
  by (simp add: sample_eyes_def sample_matrix_def)

lemma sample_eyes_outer: "outer_color sample_eyes = sample_colour"
  by (simp add: sample_eyes_def)

theorem closed_column_not_drawn_witness:
  "length sample_shape = 22 \<and> (10::nat) < 11
   \<and> sample_shape ! (2 * 10) \<ge> sample_shape ! (2 * 10 + 1)
   \<and> filter (\<lambda>k. pixel_x k = Some 28) (calls (matrix (draw_total_eye sample_shape sample_eyes))) = []"
proof -
  have col: "sample_shape ! (2 * 10) \<ge> sample_shape ! (2 * 10 + 1)"
    by (simp add: sample_shape_def)
  show ?thesis
    using closed_column_not_drawn [OF sample_shape_length _ col, of sample_eyes] col
    by (auto simp: sample_eyes_no_calls sample_shape_length)
qed

text \<open>
  Claim C1, as the code has it. The shape row \<open>y\<close> is painted at the matrix row
  \<open>y + 1\<close>. For a column with top 2.3 and bottom 5.7, \<open>draw_total_eye\<close> makes four
  calls on the matrix column of that column: the outer colour at the matrix rows 4 and 5
  (the shape rows 3 and 4, from \<open>ceilf top\<close> up to but not including \<open>floorf bottom\<close>),
  and the outer colour scaled by 0.7 at the matrix rows 3 and 6 (the boundary rows 2 and
  5 of the shape). The four rows differ, so no row is painted twice.
\<close>

theorem column_2_3_to_5_7_raster:
  assumes "length total_eye = 22" and "c < 11"
    and "total_eye ! (2 * c) = 2.3" and "total_eye ! (2 * c + 1) = 5.7"
  shows "\<exists>new. calls (matrix (draw_total_eye total_eye e)) = calls (matrix e) @ new
           \<and> filter (\<lambda>k. pixel_x k = Some (int c + 18)) new
               = [Set_colour (int c + 18) 4 (outer_color e),
                  Set_colour (int c + 18) 5 (outer_color e),
                  Set_colour (int c + 18) 3 (bMod (outer_color e) 0.7),
                  Set_colour (int c + 18) 6 (bMod (outer_color e) 0.7)]
           \<and> distinct (map pixel_y (filter (\<lambda>k. pixel_x k = Some (int c + 18)) new))"
proof -
  have "filter (\<lambda>k. pixel_x k = Some (int c + 18)) (eye_calls (outer_color e) total_eye)
        = [Set_colour (int c + 18) 4 (outer_color e),
           Set_colour (int c + 18) 5 (outer_color e),
           Set_colour (int c + 18) 3 (bMod (outer_color e) 0.7),
           Set_colour (int c + 18) 6 (bMod (outer_color e) 0.7)]"
    using eye_calls_of_column [OF assms(1,2)] column_calls_2_3_to_5_7 [OF assms(3,4)]
    by simp
  moreover from this
  have "distinct (map pixel_y (filter (\<lambda>k. pixel_x k = Some (int c + 18))
                                 (eye_calls (outer_color e) total_eye)))"
    by simp
  ultimately show ?thesis
    using draw_total_eye_calls by blast
qed

theorem column_2_3_to_5_7_raster_witness:
  "length sample_shape = 22 \<and> (0::nat) < 11
   \<and> sample_shape ! (2 * 0) = 2.3 \<and> sample_shape ! (2 * 0 + 1) = 5.7
   \<and> filter (\<lambda>k. pixel_x k = Some 18) (calls (matrix (draw_total_eye sample_shape sample_eyes)))
       = [Set_colour 18 4 sample_colour, Set_colour 18 5 sample_colour,
          Set_colour 18 3 (bMod sample_colour 0.7), Set_colour 18 6 (bMod sample_colour 0.7)]"
proof -
  have cols: "sample_shape ! (2 * 0) = 2.3" "sample_shape ! (2 * 0 + 1) = 5.7"
    by (simp_all add: sample_shape_def)
  show ?thesis
    using column_2_3_to_5_7_raster [OF sample_shape_length _ cols, of sample_eyes] cols
    by (auto simp: sample_eyes_no_calls sample_shape_length sample_eyes_outer)
qed

text \<open>
  The claim has the rows 3 to 5 solid. For the sample shape, whose first column has top
  2.3 and bottom 5.7, no call paints the plain outer colour at the shape row 5 (matrix
  row 6): that row gets the colour scaled by 0.7 only. Nor is the matrix row 3 solid,
  were the rows of the claim those of the matrix.
\<close>

theorem row_5_not_solid:
  "Set_colour 18 6 sample_colour \<notin> set (calls (matrix (draw_total_eye sample_shape sample_eyes)))
   \<and> Set_colour 18 3 sample_colour \<notin> set (calls (matrix (draw_total_eye sample_shape sample_eyes)))"
proof -
  let ?cs = "calls (matrix (draw_total_eye sample_shape sample_eyes))"
  have cols: "sample_shape ! (2 * 0) = 2.3" "sample_shape ! (2 * 0 + 1) = 5.7"
    by (simp_all add: sample_shape_def)
  have "filter (\<lambda>k. pixel_x k = Some (int 0 + 18)) ?cs
        = column_calls sample_colour sample_shape (2 * 0)"
    using eye_calls_of_column [OF sample_shape_length, of 0 sample_colour]
    by (simp add: draw_total_eye_calls sample_eyes_no_calls sample_eyes_outer)
  then have col: "filter (\<lambda>k. pixel_x k = Some 18) ?cs
        = [Set_colour 18 4 sample_colour, Set_colour 18 5 sample_colour,
           Set_colour 18 3 (bMod sample_colour 0.7), Set_colour 18 6 (bMod sample_colour 0.7)]"
    using column_calls_2_3_to_5_7 [OF cols, of sample_colour] by simp
  have scaled: "bMod sample_colour 0.7 \<noteq> sample_colour"
    by (simp add: bMod_def sample_colour_def)
  have "k \<notin> set ?cs" if "pixel_x k = Some 18" "k \<notin> set (filter (\<lambda>k. pixel_x k = Some 18) ?cs)" for k
    using that by simp
  then show ?thesis
    unfolding col using scaled by simp
qed




section \<open>Blending\<close>

text \<open>\<open>add_shapes\<close> adds the template times the applied factor; the blended shape is the
  initial shape plus every template times its applied factor.\<close>

lemma add_shapes_applied:
  "add_shapes s t f = map (\<lambda>i. s ! i + t ! i * applied f) [0..<length s]"
  by (simp add: add_shapes_def applied_def map_nth)

lemma fold_add_shapes_nth:
  "i < length te0 \<Longrightarrow>
   fold (\<lambda>sh te. add_shapes te (g sh) (h sh)) es te0 ! i
     = te0 ! i + (\<Sum>sh\<leftarrow>es. g sh ! i * applied (h sh))"
proof (induction es arbitrary: te0)
  case Nil
  then show ?case by simp
next
  case (Cons sh es)
  have "i < length (add_shapes te0 (g sh) (h sh))"
    using Cons.prems by (simp add: add_shapes_length)
  from Cons.IH [OF this] show ?case
    using Cons.prems by (simp add: add_shapes_applied)
qed

lemma fold_sum: "fold (\<lambda>sh s. s + f sh) es (a::real) = a + (\<Sum>sh\<leftarrow>es. f sh)"
  by (induction es arbitrary: a) simp_all

lemma expression_sum_eq: "expression_sum e = (\<Sum>sh\<leftarrow>emotions e. max (expressiveness sh) 0)"
  by (simp add: expression_sum_def fold_sum)

lemma blend_nth:
  assumes "i < 22"
  shows "blend R e ! i
         = initial_eye ! i
           + (\<Sum>(f, t)\<leftarrow>zip (blend_factors e) (R # map shape (emotions e)). t ! i * applied f)"
proof -
  let ?h = "\<lambda>sh. expressiveness sh / max (expression_sum e) 1"
  let ?r = "max 0 (1 - expression_sum e)"
  have i: "i < length initial_eye"
    using assms by (simp add: initial_eye_def)
  then have len: "i < length (add_shapes initial_eye R ?r)"
    by (simp add: add_shapes_length)
  have "blend R e ! i = add_shapes initial_eye R ?r ! i
          + (\<Sum>sh\<leftarrow>emotions e. shape sh ! i * applied (?h sh))"
    unfolding blend_def by (rule fold_add_shapes_nth [OF len])
  moreover have "add_shapes initial_eye R ?r ! i = initial_eye ! i + R ! i * applied ?r"
    using i by (simp add: add_shapes_applied)
  moreover have "zip (map ?h (emotions e)) (map shape (emotions e))
                 = map (\<lambda>sh. (?h sh, shape sh)) (emotions e)"
    by (simp add: zip_map_map zip_same_conv_map)
  ultimately show ?thesis
    by (simp add: blend_factors_def o_def)
qed

lemma sum_list_div: "(\<Sum>x\<leftarrow>xs. f x / (d::real)) = (\<Sum>x\<leftarrow>xs. f x) / d"
  by (induction xs) (simp_all add: add_divide_distrib)

lemma applied_small: "f < 0.1 \<Longrightarrow> applied f = 0"
  by (simp only: applied_def if_True)

lemma applied_large: "0.1 \<le> f \<Longrightarrow> applied f = f"
  unfolding applied_def by (simp only: not_less [symmetric] if_False)

lemma applied_id:
  assumes "f \<le> 0 \<or> 0.1 \<le> f" and "0 \<le> f"
  shows "applied f = f"
proof (cases "0.1 \<le> f")
  case True
  then show ?thesis by (rule applied_large)
next
  case False
  then have "f = 0" using assms by linarith
  moreover have "applied 0 = 0" by (simp add: applied_def)
  ultimately show ?thesis by simp
qed

lemma applied_weight:
  assumes "0 < d" and "w / d \<le> 0 \<or> 0.1 \<le> w / d"
  shows "applied (w / d) = max w 0 / d"
proof (cases "w \<le> 0")
  case True
  then have "w / d \<le> 0"
    using assms(1) by (simp add: divide_nonpos_pos)
  then have "w / d < 0.1" by linarith
  then have "applied (w / d) = 0"
    by (rule applied_small)
  then show ?thesis using True by (simp add: max_def)
next
  case False
  then have "0 < w / d" using assms(1) by simp
  then have "0.1 \<le> w / d" using assms(2) by linarith
  then have "applied (w / d) = w / d"
    by (rule applied_large)
  then show ?thesis using False by (simp add: max_def)
qed

lemma applied_sum:
  assumes "\<forall>f\<in>set (blend_factors e). f \<le> 0 \<or> 0.1 \<le> f"
  shows "sum_list (map applied (blend_factors e)) = 1"
proof -
  define S where "S = expression_sum e"
  define d where "d = max S 1"
  define r where "r = max 0 (1 - S)"
  have d: "0 < d" by (simp add: d_def)
  have factors: "blend_factors e = r # map (\<lambda>sh. expressiveness sh / d) (emotions e)"
    by (simp add: blend_factors_def r_def d_def S_def)
  have "applied (expressiveness sh / d) = max (expressiveness sh) 0 / d"
    if "sh \<in> set (emotions e)" for sh
    using assms that d by (intro applied_weight) (auto simp: factors)
  then have "(\<Sum>sh\<leftarrow>emotions e. applied (expressiveness sh / d))
        = (\<Sum>sh\<leftarrow>emotions e. max (expressiveness sh) 0 / d)"
    by (auto intro: arg_cong [where f = sum_list])
  also have "\<dots> = S / d"
    by (simp add: sum_list_div expression_sum_eq S_def)
  finally have emo: "(\<Sum>sh\<leftarrow>emotions e. applied (expressiveness sh / d)) = S / d" .
  have "r \<le> 0 \<or> 0.1 \<le> r"
    using assms by (simp add: factors)
  moreover have "0 \<le> r" by (simp add: r_def)
  ultimately have rel: "applied r = r"
    by (rule applied_id)
  have "r + S / d = 1"
    by (cases "S < 1") (simp_all add: r_def d_def max_def)
  then show ?thesis
    using emo rel by (simp add: factors o_def)
qed

lemma passed_sum:
  assumes "\<forall>sh\<in>set (emotions e). 0 \<le> expressiveness sh"
  shows "sum_list (blend_factors e) = 1"
proof -
  define S where "S = expression_sum e"
  have "(\<Sum>sh\<leftarrow>emotions e. expressiveness sh / max S 1)
        = (\<Sum>sh\<leftarrow>emotions e. max (expressiveness sh) 0 / max S 1)"
    using assms by (auto intro: arg_cong [where f = sum_list])
  also have "\<dots> = S / max S 1"
    by (simp add: sum_list_div expression_sum_eq S_def)
  finally have "sum_list (blend_factors e) = max 0 (1 - S) + S / max S 1"
    by (simp add: blend_factors_def S_def o_def)
  also have "\<dots> = 1"
    by (cases "S < 1") (simp_all add: max_def)
  finally show ?thesis .
qed

text \<open>
  Claim C2, as the code has it. The factors \<open>tick\<close> passes to \<open>add_shapes\<close> sum to 1
  when no weight is negative. \<open>add_shapes\<close> skips a factor below 0.1, so the factors
  applied in the blended shape sum to 1 when no passed factor lies strictly between 0
  and 0.1, whatever the signs of the weights. The last part says that the applied
  factors are those of the blended shape.
\<close>

theorem blend_scales_sum_to_one:
  "((\<forall>sh\<in>set (emotions e). 0 \<le> expressiveness sh) \<longrightarrow> sum_list (blend_factors e) = 1)
   \<and> ((\<forall>f\<in>set (blend_factors e). f \<le> 0 \<or> 0.1 \<le> f)
        \<longrightarrow> sum_list (map applied (blend_factors e)) = 1)
   \<and> (\<forall>i<22. blend relaxed_eye e ! i
          = initial_eye ! i
            + (\<Sum>(f, t)\<leftarrow>zip (blend_factors e) (relaxed_eye # map shape (emotions e)).
                 t ! i * applied f))"
  using passed_sum [of e] applied_sum [of e] blend_nth [of _ relaxed_eye e] by blast

lemma sample_expression_sum: "expression_sum sample_eyes = 1"
  by (simp add: expression_sum_def sample_eyes_def sample_emotions_def)

lemma sample_blend_factors: "blend_factors sample_eyes = [0, 1, 0, 0, 0, 0]"
  by (simp add: blend_factors_def sample_expression_sum) (simp add: sample_eyes_def sample_emotions_def)

theorem blend_scales_sum_to_one_witness:
  "blend_factors sample_eyes = [0, 1, 0, 0, 0, 0]
   \<and> sum_list (blend_factors sample_eyes) = 1
   \<and> sum_list (map applied (blend_factors sample_eyes)) = 1
   \<and> blend sample_shape sample_eyes ! 0 = 0.01 + 2.3"
proof -
  have gap: "\<forall>f\<in>set (blend_factors sample_eyes). f \<le> 0 \<or> 0.1 \<le> f"
    by (simp add: sample_blend_factors)
  have pos: "\<forall>sh\<in>set (emotions sample_eyes). 0 \<le> expressiveness sh"
    by (simp add: sample_eyes_def sample_emotions_def)
  note inst = blend_scales_sum_to_one [of sample_eyes sample_shape]
  have "blend sample_shape sample_eyes ! 0
        = initial_eye ! 0
          + (\<Sum>(f, t)\<leftarrow>zip (blend_factors sample_eyes) (sample_shape # map shape (emotions sample_eyes)).
               t ! 0 * applied f)"
    using inst by simp
  also have "\<dots> = 0.01 + 2.3"
    unfolding sample_blend_factors
    by (simp add: initial_eye_def sample_eyes_def sample_emotions_def sample_shape_def applied_def)
  finally show ?thesis
    using inst gap pos sample_blend_factors by simp
qed

text \<open>
  Five weights of 0.05: their sum 0.25 is not negative and the passed factors sum to 1,
  but each emotion factor 0.05 is skipped, so the applied factors sum to 0.75 and the
  blended shape is the initial shape plus 0.75 times the relaxed template.
\<close>

lemma faint_expression_sum: "expression_sum faint_eyes = 0.25"
  by (simp add: expression_sum_def faint_eyes_def faint_emotions_def)

lemma faint_blend_factors: "blend_factors faint_eyes = [0.75, 0.05, 0.05, 0.05, 0.05, 0.05]"
  by (simp add: blend_factors_def faint_expression_sum) (simp add: faint_eyes_def faint_emotions_def)

theorem faint_emotions_sum_below_one:
  "expression_sum faint_eyes = 0.25
   \<and> blend_factors faint_eyes = [0.75, 0.05, 0.05, 0.05, 0.05, 0.05]
   \<and> sum_list (blend_factors faint_eyes) = 1
   \<and> sum_list (map applied (blend_factors faint_eyes)) = 0.75
   \<and> sum_list (map applied (blend_factors faint_eyes)) \<noteq> 1
   \<and> blend sample_shape faint_eyes = add_shapes initial_eye sample_shape 0.75"
proof -
  have "sum_list (map applied (blend_factors faint_eyes)) = 0.75"
    unfolding faint_blend_factors by (simp add: applied_def)
  moreover have "blend sample_shape faint_eyes = add_shapes initial_eye sample_shape 0.75"
    unfolding blend_def faint_expression_sum
    by (simp add: faint_eyes_def faint_emotions_def add_shapes_def)
  moreover have "sum_list (blend_factors faint_eyes) = 1"
    unfolding faint_blend_factors by simp
  ultimately show ?thesis
    using faint_expression_sum faint_blend_factors by simp
qed




section \<open>The frame\<close>

lemma iris_clip_total:
  assumes "length total_eye = 22"
  shows "\<exists>te. iris_clip iris total_eye = Some te"
proof (cases "0 \<le> roundf iris \<and> roundf iris \<le> 10")
  case True
  then show ?thesis using iris_clip_valid [OF assms] by simp
next
  case False
  then show ?thesis using iris_clip_invalid [OF assms, of iris] by auto
qed

lemma draw_frame:
  "draw_blush (draw_total_eye te e)
   = e\<lparr>matrix := call (eye_calls (outer_color e) te
                          @ (if alpha (blush_colour e) < 0.1 then []
                             else blush_calls (blush_colour e)))
                    (matrix e)\<rparr>"
  by (simp add: draw_blush_def draw_total_eye_def call_def)

lemma blend_emotions: "emotions e2 = emotions e \<Longrightarrow> blend R e2 = blend R e"
  by (simp add: blend_def expression_sum_def)

text \<open>The frame: the calls of a tick are those of the eye, then those of the blush.\<close>

lemma tick_Some:
  "\<exists>te. iris_clip (iris_x e) (calculate_blink t (blend R e)) = Some te
     \<and> tick R t d e
         = Some (e\<lparr>matrix := call (eye_calls (outer_color e) te
                                     @ (if alpha (blush_colour e) < 0.1 then []
                                        else blush_calls (blush_colour e)))
                               (matrix e)\<rparr>)"
proof -
  obtain te where "iris_clip (iris_x e) (calculate_blink t (blend R e)) = Some te"
    using iris_clip_total [OF blinked_blend_length] by blast
  then show ?thesis
    by (simp add: tick_def draw_frame)
qed

text \<open>
  Claim C9, as the code has it. \<open>tick\<close> returns normally, and the eyes after it are the
  eyes before it but for the calls appended to the matrix: the weights, \<open>iris_x\<close>, the
  three colours and \<open>offset\<close> are unchanged. The appended calls are the same for any
  eyes with the same emotions (templates and weights), iris position, outer colour and
  blush colour at the same clock: they depend on nothing else.
\<close>

theorem tick_writes_matrix_only:
  "\<exists>e' out. tick R t d e = Some e'
     \<and> e'\<lparr>matrix := matrix e\<rparr> = e
     \<and> emotions e' = emotions e \<and> iris_x e' = iris_x e
     \<and> outer_color e' = outer_color e \<and> inner_color e' = inner_color e
     \<and> blush_colour e' = blush_colour e \<and> offset e' = offset e
     \<and> width (matrix e') = width (matrix e)
     \<and> calls (matrix e') = calls (matrix e) @ out
     \<and> (\<forall>e2. emotions e2 = emotions e \<and> iris_x e2 = iris_x e
              \<and> outer_color e2 = outer_color e \<and> blush_colour e2 = blush_colour e
           \<longrightarrow> (\<exists>e2'. tick R t d e2 = Some e2' \<and> calls (matrix e2') = calls (matrix e2) @ out))"
proof -
  obtain te where te: "iris_clip (iris_x e) (calculate_blink t (blend R e)) = Some te"
    and tick: "tick R t d e
         = Some (e\<lparr>matrix := call (eye_calls (outer_color e) te
                                     @ (if alpha (blush_colour e) < 0.1 then []
                                        else blush_calls (blush_colour e)))
                               (matrix e)\<rparr>)"
    using tick_Some [of e t R d] by blast
  define out where "out = eye_calls (outer_color e) te
                          @ (if alpha (blush_colour e) < 0.1 then []
                             else blush_calls (blush_colour e))"
  define e' where "e' = e\<lparr>matrix := call out (matrix e)\<rparr>"
  have 1: "tick R t d e = Some e'"
    using tick by (simp add: e'_def out_def)
  have 2: "e'\<lparr>matrix := matrix e\<rparr> = e" by (simp add: e'_def)
  have 3: "emotions e' = emotions e \<and> iris_x e' = iris_x e
     \<and> outer_color e' = outer_color e \<and> inner_color e' = inner_color e
     \<and> blush_colour e' = blush_colour e \<and> offset e' = offset e"
    by (simp add: e'_def)
  have 4: "width (matrix e') = width (matrix e)" by (simp add: e'_def call_def)
  have 5: "calls (matrix e') = calls (matrix e) @ out" by (simp add: e'_def call_def)
  have 6: "\<exists>e2'. tick R t d e2 = Some e2' \<and> calls (matrix e2') = calls (matrix e2) @ out"
    if same: "emotions e2 = emotions e \<and> iris_x e2 = iris_x e
        \<and> outer_color e2 = outer_color e \<and> blush_colour e2 = blush_colour e" for e2
  proof -
    have "blend R e2 = blend R e"
      using same by (intro blend_emotions) simp
    then have "iris_clip (iris_x e2) (calculate_blink t (blend R e2)) = Some te"
      using same te by simp
    then have "tick R t d e2 = Some (e2\<lparr>matrix := call out (matrix e2)\<rparr>)"
      using same by (simp add: tick_def draw_frame out_def)
    then show ?thesis
      by (simp add: call_def)
  qed
  from 1 2 3 4 5 6 show ?thesis by blast
qed

lemma other_eyes_no_calls: "calls (matrix other_eyes) = []"
  by (simp add: other_eyes_def sample_eyes_no_calls)

theorem tick_writes_matrix_only_witness:
  "\<exists>e1' e2'. tick sample_shape 5 0 sample_eyes = Some e1'
      \<and> tick sample_shape 5 0 other_eyes = Some e2'
      \<and> e1'\<lparr>matrix := matrix sample_eyes\<rparr> = sample_eyes
      \<and> calls (matrix e2') = calls (matrix e1')"
proof -
  obtain e1' out where 1: "tick sample_shape 5 0 sample_eyes = Some e1'"
    and 2: "e1'\<lparr>matrix := matrix sample_eyes\<rparr> = sample_eyes"
    and 3: "calls (matrix e1') = calls (matrix sample_eyes) @ out"
    and 4: "\<forall>e2. emotions e2 = emotions sample_eyes \<and> iris_x e2 = iris_x sample_eyes
              \<and> outer_color e2 = outer_color sample_eyes
              \<and> blush_colour e2 = blush_colour sample_eyes
           \<longrightarrow> (\<exists>e2'. tick sample_shape 5 0 e2 = Some e2'
                  \<and> calls (matrix e2') = calls (matrix e2) @ out)"
    using tick_writes_matrix_only [of sample_shape 5 0 sample_eyes] by blast
  have "emotions other_eyes = emotions sample_eyes \<and> iris_x other_eyes = iris_x sample_eyes
        \<and> outer_color other_eyes = outer_color sample_eyes
        \<and> blush_colour other_eyes = blush_colour sample_eyes"
    by (simp add: other_eyes_def)
  with 4 obtain e2' where 5: "tick sample_shape 5 0 other_eyes = Some e2'"
    and 6: "calls (matrix e2') = calls (matrix other_eyes) @ out"
    by blast
  have "calls (matrix e2') = calls (matrix e1')"
    using 3 6 by (simp add: sample_eyes_no_calls other_eyes_no_calls)
  with 1 2 5 show ?thesis by blast
qed

text \<open>
  The rendered output is not a function of the clock, the weights and the iris position
  alone: when the blush is visible its colour is that of the last call of the frame, so
  two eyes that differ in \<open>blush_colour\<close> only render different frames at the same
  clock.
\<close>

lemma upto_0_4: "[0 .. 4 :: int] = [0, 1, 2, 3, 4]"
  by (simp add: upto.simps)

lemma upto_0_2: "[0 .. 2 :: int] = [0, 1, 2]"
  by (simp add: upto.simps)

lemma blush_calls_last: "blush_calls c \<noteq> [] \<and> last (blush_calls c) = Set_colour 27 11 c"
  by (simp add: blush_calls_def upto_0_4 upto_0_2)

lemma tick_last_call:
  assumes "0.1 \<le> alpha (blush_colour e)"
  shows "\<exists>e'. tick R t d e = Some e' \<and> last (calls (matrix e')) = Set_colour 27 11 (blush_colour e)"
proof -
  have "\<not> alpha (blush_colour e) < 0.1"
    using assms by linarith
  then show ?thesis
    using tick_Some [of e t R d] blush_calls_last [of "blush_colour e"]
    by (auto simp: call_def)
qed

theorem blush_colour_changes_frame:
  "emotions plain_eyes = emotions sample_eyes
   \<and> iris_x plain_eyes = iris_x sample_eyes
   \<and> map_option (calls \<circ> matrix) (tick sample_shape 5 0 plain_eyes)
       \<noteq> map_option (calls \<circ> matrix) (tick sample_shape 5 0 sample_eyes)"
proof -
  obtain e1' where 1: "tick sample_shape 5 0 plain_eyes = Some e1'"
    and last1: "last (calls (matrix e1')) = Set_colour 27 11 (blush_colour plain_eyes)"
    using tick_last_call [of plain_eyes sample_shape 5 0]
    by (auto simp: plain_eyes_def sample_colour_def)
  obtain e2' where 2: "tick sample_shape 5 0 sample_eyes = Some e2'"
    and last2: "last (calls (matrix e2')) = Set_colour 27 11 (blush_colour sample_eyes)"
    using tick_last_call [of sample_eyes sample_shape 5 0]
    by (auto simp: sample_eyes_def sample_blush_def)
  have "blush_colour plain_eyes \<noteq> blush_colour sample_eyes"
    by (simp add: plain_eyes_def sample_eyes_def sample_colour_def sample_blush_def)
  then have "last (calls (matrix e1')) \<noteq> last (calls (matrix e2'))"
    using last1 last2 by simp
  then have "calls (matrix e1') \<noteq> calls (matrix e2')"
    by auto
  then show ?thesis
    using 1 2 by (simp add: plain_eyes_def)
qed



section \<open>MatrixString: the null string and the idle scroll\<close>

text \<open>
  Claim C10. \<open>set_string\<close> with a null pointer stores the empty string, and a tick with
  an empty string or with \<open>|scroll_speed| \<le> 0.1\<close> leaves \<open>pos_x\<close> as it is.
\<close>

theorem set_string_null_and_idle_scroll:
  "set_string None m = m\<lparr>current_str := ''''\<rparr>
   \<and> current_str (set_string None m) = []
   \<and> (current_str m = [] \<or> \<bar>scroll_speed m\<bar> \<le> 0.1 \<longrightarrow> pos_x (string_tick delta_t m) = pos_x m)"
  by (auto simp: set_string_def string_tick_def scroll_def Let_def call_def)

theorem set_string_null_and_idle_scroll_witness:
  "\<bar>scroll_speed sample_string\<bar> \<le> 0.1
   \<and> current_str sample_string \<noteq> []
   \<and> pos_x (string_tick 1 sample_string) = pos_x sample_string
   \<and> current_str (set_string None (sample_string\<lparr>scroll_speed := 2\<rparr>)) = []
   \<and> pos_x (string_tick 1 (set_string None (sample_string\<lparr>scroll_speed := 2\<rparr>))) = 64"
proof -
  have slow: "\<bar>scroll_speed sample_string\<bar> \<le> 0.1"
    by (simp add: sample_string_def)
  show ?thesis
    using slow
      set_string_null_and_idle_scroll [of sample_string 1]
      set_string_null_and_idle_scroll [of "sample_string\<lparr>scroll_speed := 2\<rparr>" 1]
      set_string_null_and_idle_scroll [of "set_string None (sample_string\<lparr>scroll_speed := 2\<rparr>)" 1]
    by (simp add: sample_string_def)
qed


end
